theory Spec2Isabelle
  imports Main
begin

section \<open>The HR record-keeping backend (backend/app.py)\<close>

text \<open>
  The program is a FastAPI application over two SQLAlchemy tables. Its own code is five
  request handlers, two ORM classes, four request/response schemas and the session
  dependency \<^verbatim>\<open>get_db\<close>. Everything a handler does goes through the ORM, so the embedding
  fixes a small model of the relational store, stated here once:

  \<^item> a table is the list of its rows in insertion order together with the last value
    its \<^verbatim>\<open>id\<close> sequence has handed out; a table that has not been created is \<open>None\<close>;
  \<^item> \<^verbatim>\<open>db.add\<close>, \<^verbatim>\<open>db.commit\<close>, \<^verbatim>\<open>db.refresh\<close> of a new object append one row whose
    \<^verbatim>\<open>id\<close> is the next value of the sequence and return the row as stored, unless the
    driver or the store refuses the row: a text holding the character NUL, a sequence
    that has run through the 32 bits of the \<^verbatim>\<open>Integer\<close> column, a primary key or an
    email that is already stored;
  \<^item> \<^verbatim>\<open>query.offset(skip).limit(limit).all()\<close> reads the rows in insertion order, and
    the store takes \<^verbatim>\<open>OFFSET\<close> and \<^verbatim>\<open>LIMIT\<close> as 64-bit integers that are not negative;
  \<^item> Python's integers are unbounded and are modelled by \<open>int\<close>, with the bounds of
    the store written out where it checks them; failures of the connection are
    outside the model;
  \<^item> requests are handled one after the other.
\<close>

subsection \<open>ORM models (lines 18-32)\<close>

text \<open>
  \<^verbatim>\<open>id\<close> names the identity function of HOL, and the two classes share field names, so
  the fields carry the prefix \<open>v_\<close> (Vacancy) or \<open>c_\<close> (Candidate). A column declared
  \<^verbatim>\<open>nullable=True\<close> holds a \<open>string option\<close>, a \<^verbatim>\<open>nullable=False\<close> column a \<open>string\<close>.
\<close>

record Vacancy =
  v_id :: int
  v_title :: string
  v_description :: "string option"
  v_status :: string

record Candidate =
  c_id :: int
  c_full_name :: string
  c_email :: string
  c_phone :: "string option"
  c_city :: "string option"

record 'r table =
  rows :: "'r list"
  id_seq :: int

record database =
  vacancies :: "Vacancy table option"
  candidates :: "Candidate table option"
  open_sessions :: nat

text \<open>
  Every way a request can fail. \<open>HTTPException\<close> carries the status code and the detail
  the handler raises it with; \<open>RequestValidationError\<close> is the rejection of a body that
  does not fit its schema (status 422); the other four are the errors of the driver and
  of PostgreSQL, the store of the default \<^verbatim>\<open>DATABASE_URL\<close>, that the framework turns
  into status 500: a statement on a table that does not exist or a \<^verbatim>\<open>CREATE TABLE\<close> of
  one that does (\<open>ProgrammingError\<close>), a violated constraint (\<open>IntegrityError\<close>), a
  value out of the range of its type, as a negative or too large \<^verbatim>\<open>OFFSET\<close> or \<^verbatim>\<open>LIMIT\<close>
  or an exhausted sequence (\<open>DataError\<close>), and a text parameter that holds the
  character NUL, which the driver refuses before it sends the statement
  (\<open>ValueError\<close>).
\<close>

datatype error =
    HTTPException int string
  | RequestValidationError
  | ProgrammingError
  | IntegrityError
  | DataError
  | ValueError

fun status_code :: "error \<Rightarrow> int" where
  "status_code (HTTPException code detail) = code"
| "status_code RequestValidationError = 422"
| "status_code ProgrammingError = 500"
| "status_code IntegrityError = 500"
| "status_code DataError = 500"
| "status_code ValueError = 500"

definition client_error :: "error \<Rightarrow> bool" where
  "client_error e = (400 \<le> status_code e \<and> status_code e < 500)"

subsection \<open>Schema creation at start (line 36)\<close>

text \<open>
  Modelled from the spec: the body of \<^verbatim>\<open>Base.metadata.create_all\<close>, a library call of
  which the source has only the invocation \<^verbatim>\<open>Base.metadata.create_all(bind=engine)\<close>. The
  spec says: "On process start, ensures both tables exist (idempotent create-if-absent)"
  and "schema created automatically if absent". So \<open>create_all\<close> asks for each of the
  two tables whether it exists and creates it only when it does not; \<open>create_table\<close>
  makes an empty table with a sequence that has issued nothing, and is an error when the
  table is there.
\<close>

definition create_table :: "'r table option \<Rightarrow> error + 'r table option" where
  "create_table t =
     (case t of
        None \<Rightarrow> Inr (Some \<lparr>rows = [], id_seq = 0\<rparr>)
      | Some existing \<Rightarrow> Inl ProgrammingError)"

definition has_table :: "'r table option \<Rightarrow> bool" where
  "has_table t = (case t of None \<Rightarrow> False | Some existing \<Rightarrow> True)"

definition create_all :: "database \<Rightarrow> error + database" where
  "create_all db =
     (case (if has_table (vacancies db) then Inr (vacancies db)
            else create_table (vacancies db)) of
        Inl e \<Rightarrow> Inl e
      | Inr v \<Rightarrow>
          (case (if has_table (candidates db) then Inr (candidates db)
                 else create_table (candidates db)) of
             Inl e \<Rightarrow> Inl e
           | Inr c \<Rightarrow> Inr (db\<lparr>vacancies := v, candidates := c\<rparr>)))"

text \<open>A database in which nothing has been created and no session is open.\<close>

definition empty_database :: database where
  "empty_database = \<lparr>vacancies = None, candidates = None, open_sessions = 0\<rparr>"

subsection \<open>Pydantic schemas (lines 40-71)\<close>

text \<open>
  A field of a JSON body is left out, given as \<^verbatim>\<open>null\<close>, or given as a text. A schema
  class turns a body into its validated form or rejects it: a field typed \<^verbatim>\<open>str\<close> must
  be a text; a field typed \<^verbatim>\<open>Optional[str] = d\<close> is \<^verbatim>\<open>d\<close> when left out, \<^verbatim>\<open>None\<close> when
  \<^verbatim>\<open>null\<close>, and the text otherwise. The response schemas \<^verbatim>\<open>VacancyRead\<close> and
  \<^verbatim>\<open>CandidateRead\<close> have the fields of the rows, so a row is its own response.
\<close>

datatype field = Omitted | Null | Text string

record vacancy_body =
  vb_title :: field
  vb_description :: field
  vb_status :: field

record VacancyCreate =
  vc_title :: string
  vc_description :: "string option"
  vc_status :: "string option"

record candidate_body =
  cb_full_name :: field
  cb_email :: field
  cb_phone :: field
  cb_city :: field

record CandidateCreate =
  cc_full_name :: string
  cc_email :: string
  cc_phone :: "string option"
  cc_city :: "string option"

fun optional :: "string option \<Rightarrow> field \<Rightarrow> string option" where
  "optional d Omitted = d"
| "optional d Null = None"
| "optional d (Text s) = Some s"

definition parse_VacancyCreate :: "vacancy_body \<Rightarrow> error + VacancyCreate" where
  "parse_VacancyCreate b =
     (case vb_title b of
        Text t \<Rightarrow>
          Inr \<lparr>vc_title = t,
               vc_description = optional None (vb_description b),
               vc_status = optional (Some ''open'') (vb_status b)\<rparr>
      | Omitted \<Rightarrow> Inl RequestValidationError
      | Null \<Rightarrow> Inl RequestValidationError)"

definition parse_CandidateCreate :: "candidate_body \<Rightarrow> error + CandidateCreate" where
  "parse_CandidateCreate b =
     (case (cb_full_name b, cb_email b) of
        (Text n, Text e) \<Rightarrow>
          Inr \<lparr>cc_full_name = n,
               cc_email = e,
               cc_phone = optional None (cb_phone b),
               cc_city = optional None (cb_city b)\<rparr>
      | other \<Rightarrow> Inl RequestValidationError)"

subsection \<open>Inserting a new object: add, commit, refresh\<close>

text \<open>
  \<^verbatim>\<open>Vacancy(**vacancy.dict())\<close> sets \<^verbatim>\<open>title\<close>, \<^verbatim>\<open>description\<close> and \<^verbatim>\<open>status\<close> to the values
  of the schema and leaves \<^verbatim>\<open>id\<close> unset. On flush the ORM leaves every attribute that
  is \<^verbatim>\<open>None\<close> out of the \<^verbatim>\<open>INSERT\<close>, whether it was never set or set to \<^verbatim>\<open>None\<close>, and a
  column left out takes its default: \<^verbatim>\<open>id\<close> the next value of the sequence, \<^verbatim>\<open>status\<close>
  the \<^verbatim>\<open>default="open"\<close> of line 23, \<^verbatim>\<open>description\<close> (no default) \<^verbatim>\<open>NULL\<close>.
  \<^verbatim>\<open>db.refresh\<close> then reads the stored row back into the object.

  The insert can fail, and then no row is stored:
  \<^item> the driver refuses a text parameter that holds the character NUL with a
    \<open>ValueError\<close>, before the statement is sent, so the sequence is not touched;
  \<^item> \<^verbatim>\<open>id\<close> is \<^verbatim>\<open>Column(Integer, primary_key=True)\<close> (lines 20 and 28), a 32-bit serial:
    when the sequence has issued 2147483647 it has no next value and the store answers
    with a \<open>DataError\<close>;
  \<^item> the store refuses a row whose primary key is already in the table with an
    \<open>IntegrityError\<close>; the sequence value drawn for the refused row is not given back.
\<close>

definition holds_NUL :: "string \<Rightarrow> bool" where
  "holds_NUL s = (CHR 0x00 \<in> set s)"

fun opt_holds_NUL :: "string option \<Rightarrow> bool" where
  "opt_holds_NUL None = False"
| "opt_holds_NUL (Some s) = holds_NUL s"


definition max_serial :: int where
  "max_serial = 2147483647"

definition insert_vacancy ::
    "VacancyCreate \<Rightarrow> Vacancy table \<Rightarrow> (error + Vacancy) \<times> Vacancy table" where
  "insert_vacancy kw t =
     (let new_id = id_seq t + 1;
          row = \<lparr>v_id = new_id,
                 v_title = vc_title kw,
                 v_description = vc_description kw,
                 v_status = (case vc_status kw of None \<Rightarrow> ''open'' | Some s \<Rightarrow> s)\<rparr>
      in if holds_NUL (vc_title kw) \<or> opt_holds_NUL (vc_description kw)
            \<or> opt_holds_NUL (vc_status kw)
         then (Inl ValueError, t)
         else if max_serial < new_id then (Inl DataError, t)
         else if new_id \<in> set (map v_id (rows t))
         then (Inl IntegrityError, t\<lparr>id_seq := new_id\<rparr>)
         else (Inr row, \<lparr>rows = rows t @ [row], id_seq = new_id\<rparr>))"

text \<open>
  A candidate is inserted in the same way. In addition the \<^verbatim>\<open>email\<close> column is
  \<^verbatim>\<open>unique=True\<close> (line 30): the store refuses a row whose email is already in the table
  with an \<open>IntegrityError\<close>, as it does for the primary key, and keeps the rows as they
  were.
\<close>

definition insert_candidate ::
    "CandidateCreate \<Rightarrow> Candidate table \<Rightarrow> (error + Candidate) \<times> Candidate table" where
  "insert_candidate kw t =
     (let new_id = id_seq t + 1;
          row = \<lparr>c_id = new_id,
                 c_full_name = cc_full_name kw,
                 c_email = cc_email kw,
                 c_phone = cc_phone kw,
                 c_city = cc_city kw\<rparr>
      in if holds_NUL (cc_full_name kw) \<or> holds_NUL (cc_email kw)
            \<or> opt_holds_NUL (cc_phone kw) \<or> opt_holds_NUL (cc_city kw)
         then (Inl ValueError, t)
         else if max_serial < new_id then (Inl DataError, t)
         else if new_id \<in> set (map c_id (rows t))
                 \<or> cc_email kw \<in> set (map c_email (rows t))
         then (Inl IntegrityError, t\<lparr>id_seq := new_id\<rparr>)
         else (Inr row, \<lparr>rows = rows t @ [row], id_seq = new_id\<rparr>))"

text \<open>
  \<^verbatim>\<open>db.query(M).offset(skip).limit(limit).all()\<close> on the table of \<^verbatim>\<open>M\<close>. The handlers
  pass \<^verbatim>\<open>skip\<close> and \<^verbatim>\<open>limit\<close> on as they come (lines 95 and 110). The store reads both as
  64-bit integers and refuses a value of \<open>2 ^ 63\<close> or more, and a negative one, with a
  \<open>DataError\<close>.
\<close>

definition max_bigint :: int where
  "max_bigint = 9223372036854775807"

definition offset_limit_all :: "'r table option \<Rightarrow> int \<Rightarrow> int \<Rightarrow> error + 'r list" where
  "offset_limit_all tbl skip limit =
     (case tbl of
        None \<Rightarrow> Inl ProgrammingError
      | Some t \<Rightarrow>
          if skip < 0 \<or> limit < 0 \<or> max_bigint < skip \<or> max_bigint < limit
          then Inl DataError
          else Inr (take (nat limit) (drop (nat skip) (rows t))))"

subsection \<open>The session dependency (lines 79-84)\<close>

text \<open>
  \<^verbatim>\<open>get_db\<close> opens a session, hands it to the handler at the \<^verbatim>\<open>yield\<close>, and closes it in
  the \<^verbatim>\<open>finally\<close> block: on the handler's return and on its exception alike. The handler
  is the argument \<open>body\<close>; the database it runs on has the session open.
\<close>

definition SessionLocal :: "database \<Rightarrow> database" where
  "SessionLocal db = db\<lparr>open_sessions := open_sessions db + 1\<rparr>"

definition close :: "database \<Rightarrow> database" where
  "close db = db\<lparr>open_sessions := open_sessions db - 1\<rparr>"

definition get_db ::
    "(database \<Rightarrow> (error + 'a) \<times> database) \<Rightarrow> database \<Rightarrow> (error + 'a) \<times> database" where
  "get_db body db0 =
     (case body (SessionLocal db0) of
        (Inr result, db) \<Rightarrow> (Inr result, close db)
      | (Inl raised, db) \<Rightarrow> (Inl raised, close db))"

subsection \<open>The handlers (lines 87-122)\<close>

definition health :: "(string \<times> string) list" where
  "health = [(''status'', ''ok'')]"

definition list_vacancies :: "int \<Rightarrow> int \<Rightarrow> database \<Rightarrow> (error + Vacancy list) \<times> database" where
  "list_vacancies skip limit db = (offset_limit_all (vacancies db) skip limit, db)"

definition create_vacancy :: "VacancyCreate \<Rightarrow> database \<Rightarrow> (error + Vacancy) \<times> database" where
  "create_vacancy vacancy db =
     (case vacancies db of
        None \<Rightarrow> (Inl ProgrammingError, db)
      | Some t \<Rightarrow>
          (case insert_vacancy vacancy t of
             (outcome, t') \<Rightarrow> (outcome, db\<lparr>vacancies := Some t'\<rparr>)))"

definition list_candidates ::
    "int \<Rightarrow> int \<Rightarrow> database \<Rightarrow> (error + Candidate list) \<times> database" where
  "list_candidates skip limit db = (offset_limit_all (candidates db) skip limit, db)"

text \<open>
  \<^verbatim>\<open>filter(Candidate.email == candidate.email).first()\<close> is the first row with the
  email, or \<^verbatim>\<open>None\<close>; a row is truthy, so \<^verbatim>\<open>if existing\<close> asks whether there is one.
  The store holds no text with a NUL, so an email that holds one is found in no row; the
  driver's refusal of it is that of \<open>insert_candidate\<close>, with the same answer and the
  same store.
\<close>

definition create_candidate ::
    "CandidateCreate \<Rightarrow> database \<Rightarrow> (error + Candidate) \<times> database" where
  "create_candidate candidate db =
     (case candidates db of
        None \<Rightarrow> (Inl ProgrammingError, db)
      | Some t \<Rightarrow>
          (case find (\<lambda>r. c_email r = cc_email candidate) (rows t) of
             Some existing \<Rightarrow>
               (Inl (HTTPException 400 ''Candidate with this email already exists''), db)
           | None \<Rightarrow>
               (case insert_candidate candidate t of
                  (outcome, t') \<Rightarrow> (outcome, db\<lparr>candidates := Some t'\<rparr>))))"

subsection \<open>Routing (the decorators of lines 87-113)\<close>

text \<open>
  A request is matched to its handler by method and path. The query parameters
  \<^verbatim>\<open>skip\<close> and \<^verbatim>\<open>limit\<close> may be absent and then take the defaults of the signature, 0 and
  100. The handlers that declare \<^verbatim>\<open>Depends(get_db)\<close> run inside \<open>get_db\<close>; the body of a
  \<^verbatim>\<open>POST\<close> is validated against its schema before the handler is called.
\<close>

datatype request =
    GET_health
  | GET_vacancies "int option" "int option"
  | POST_vacancies vacancy_body
  | GET_candidates "int option" "int option"
  | POST_candidates candidate_body

datatype response =
    HealthOut "(string \<times> string) list"
  | VacancyListOut "Vacancy list"
  | VacancyOut Vacancy
  | CandidateListOut "Candidate list"
  | CandidateOut Candidate

fun default :: "int \<Rightarrow> int option \<Rightarrow> int" where
  "default d None = d"
| "default d (Some given) = given"

definition respond ::
    "('a \<Rightarrow> response) \<Rightarrow> (error + 'a) \<times> database \<Rightarrow> (error + response) \<times> database" where
  "respond out r =
     (case r of
        (Inl e, db) \<Rightarrow> (Inl e, db)
      | (Inr x, db) \<Rightarrow> (Inr (out x), db))"

fun handle :: "request \<Rightarrow> database \<Rightarrow> (error + response) \<times> database" where
  "handle GET_health db = (Inr (HealthOut health), db)"
| "handle (GET_vacancies skip limit) db =
     respond VacancyListOut (get_db (list_vacancies (default 0 skip) (default 100 limit)) db)"
| "handle (POST_vacancies body) db =
     respond VacancyOut
       (get_db (\<lambda>d. case parse_VacancyCreate body of
                       Inl e \<Rightarrow> (Inl e, d)
                     | Inr vacancy \<Rightarrow> create_vacancy vacancy d) db)"
| "handle (GET_candidates skip limit) db =
     respond CandidateListOut
       (get_db (list_candidates (default 0 skip) (default 100 limit)) db)"
| "handle (POST_candidates body) db =
     respond CandidateOut
       (get_db (\<lambda>d. case parse_CandidateCreate body of
                       Inl e \<Rightarrow> (Inl e, d)
                     | Inr candidate \<Rightarrow> create_candidate candidate d) db)"

text \<open>The database after a list of requests, handled in order.\<close>

fun run :: "request list \<Rightarrow> database \<Rightarrow> database" where
  "run [] db = db"
| "run (req # reqs) db = run reqs (snd (handle req db))"

subsection \<open>Invariants of the store\<close>

text \<open>
  The emails of the stored candidates are pairwise different; the identifiers of the
  rows of a table are positive values the sequence has issued.
\<close>

definition unique_email :: "database \<Rightarrow> bool" where
  "unique_email db =
     (case candidates db of
        None \<Rightarrow> True
      | Some t \<Rightarrow> distinct (map c_email (rows t)))"

definition ids_issued :: "('r \<Rightarrow> int) \<Rightarrow> 'r table option \<Rightarrow> bool" where
  "ids_issued ident tbl =
     (case tbl of
        None \<Rightarrow> True
      | Some t \<Rightarrow> 0 \<le> id_seq t \<and> list_all (\<lambda>r. 0 < ident r \<and> ident r \<le> id_seq t) (rows t))"

subsection \<open>Example data\<close>

text \<open>A database after start with one stored candidate, used to instantiate the theorems.\<close>

definition ann :: Candidate where
  "ann = \<lparr>c_id = 1, c_full_name = ''Ann Lee'', c_email = ''ann@example.org'',
          c_phone = None, c_city = Some ''Riga''\<rparr>"

definition one_candidate_db :: database where
  "one_candidate_db =
     \<lparr>vacancies = Some \<lparr>rows = [], id_seq = 0\<rparr>,
      candidates = Some \<lparr>rows = [ann], id_seq = 1\<rparr>,
      open_sessions = 0\<rparr>"

text \<open>The database right after the first start, and three request bodies.\<close>

definition started_db :: database where
  "started_db =
     \<lparr>vacancies = Some \<lparr>rows = [], id_seq = 0\<rparr>,
      candidates = Some \<lparr>rows = [], id_seq = 0\<rparr>,
      open_sessions = 0\<rparr>"

definition ann_again_body :: candidate_body where
  "ann_again_body =
     \<lparr>cb_full_name = Text ''Ann B'', cb_email = Text ''ann@example.org'',
      cb_phone = Omitted, cb_city = Omitted\<rparr>"

definition bob_body :: candidate_body where
  "bob_body =
     \<lparr>cb_full_name = Text ''Bob Ray'', cb_email = Text ''bob@example.org'',
      cb_phone = Null, cb_city = Omitted\<rparr>"

definition dev_body :: vacancy_body where
  "dev_body = \<lparr>vb_title = Text ''Developer'', vb_description = Omitted, vb_status = Omitted\<rparr>"

definition qa_body :: vacancy_body where
  "qa_body = \<lparr>vb_title = Text ''Tester'', vb_description = Text ''QA'', vb_status = Null\<rparr>"

text \<open>The two vacancies that \<open>dev_body\<close> and \<open>qa_body\<close> create on \<open>started_db\<close>.\<close>

definition dev_row :: Vacancy where
  "dev_row = \<lparr>v_id = 1, v_title = ''Developer'', v_description = None, v_status = ''open''\<rparr>"

definition qa_row :: Vacancy where
  "qa_row = \<lparr>v_id = 2, v_title = ''Tester'', v_description = Some ''QA'', v_status = ''open''\<rparr>"

definition two_vacancies_db :: database where
  "two_vacancies_db =
     \<lparr>vacancies = Some \<lparr>rows = [dev_row, qa_row], id_seq = 2\<rparr>,
      candidates = Some \<lparr>rows = [], id_seq = 0\<rparr>,
      open_sessions = 0\<rparr>"





section \<open>Basic facts about sessions and lookups\<close>

lemma close_SessionLocal: "close (SessionLocal db) = db"
  by (simp add: close_def SessionLocal_def)

lemma get_db_result:
  "body (SessionLocal db) = (r, db') \<Longrightarrow> get_db body db = (r, close db')"
  by (cases r) (simp_all add: get_db_def)

lemma find_email_Some:
  "e \<in> set (map c_email rs) \<Longrightarrow> \<exists>r. find (\<lambda>r. c_email r = e) rs = Some r"
  by (induction rs) auto

lemma find_email_None:
  "e \<notin> set (map c_email rs) \<Longrightarrow> find (\<lambda>r. c_email r = e) rs = None"
  by (induction rs) auto

lemma create_candidate_duplicate:
  assumes "candidates db = Some t" and "cc_email candidate \<in> set (map c_email (rows t))"
  shows "create_candidate candidate db =
           (Inl (HTTPException 400 ''Candidate with this email already exists''), db)"
proof -
  from assms(2) obtain r where "find (\<lambda>r. c_email r = cc_email candidate) (rows t) = Some r"
    using find_email_Some by blast
  with assms(1) show ?thesis by (simp add: create_candidate_def)
qed

section \<open>What an insert does to a table\<close>

text \<open>
  An insert is refused and leaves the table as it was, or is refused and costs one
  value of the sequence, or appends the new row under the next value of the sequence.
\<close>

lemma insert_vacancy_cases:
  "(\<exists>e. insert_vacancy kw t = (Inl e, t))
   \<or> (\<exists>e. insert_vacancy kw t = (Inl e, t\<lparr>id_seq := id_seq t + 1\<rparr>))
   \<or> (\<exists>r. v_id r = id_seq t + 1 \<and>
          insert_vacancy kw t = (Inr r, \<lparr>rows = rows t @ [r], id_seq = id_seq t + 1\<rparr>))"
  by (simp add: insert_vacancy_def Let_def)

lemma insert_candidate_cases:
  "(\<exists>e. insert_candidate kw t = (Inl e, t))
   \<or> (\<exists>e. insert_candidate kw t = (Inl e, t\<lparr>id_seq := id_seq t + 1\<rparr>))
   \<or> (\<exists>r. c_id r = id_seq t + 1 \<and> c_email r \<notin> set (map c_email (rows t)) \<and>
          insert_candidate kw t = (Inr r, \<lparr>rows = rows t @ [r], id_seq = id_seq t + 1\<rparr>))"
  by (simp add: insert_candidate_def Let_def)



lemma insert_vacancy_Inr:
  "insert_vacancy kw t = (Inr r, t') \<Longrightarrow>
   t' = \<lparr>rows = rows t @ [r], id_seq = id_seq t + 1\<rparr> \<and> v_id r = id_seq t + 1"
  using insert_vacancy_cases [of kw t] by auto

lemma insert_candidate_Inr:
  "insert_candidate kw t = (Inr r, t') \<Longrightarrow>
   t' = \<lparr>rows = rows t @ [r], id_seq = id_seq t + 1\<rparr> \<and> c_id r = id_seq t + 1"
  using insert_candidate_cases [of kw t] by auto

section \<open>What a request does to the database\<close>

text \<open>
  A request leaves the database as it was, or appends one vacancy, or appends one
  candidate whose email was not in the table, or, when the store refuses a row for its
  key, only moves a sequence on by one. A new row takes the next value of the sequence.
  These cases are the frame for every invariant below.
\<close>

lemma find_email_None_iff:
  "find (\<lambda>r. c_email r = e) rs = None \<longleftrightarrow> e \<notin> set (map c_email rs)"
  by (induction rs) auto

lemma list_vacancies_state: "snd (list_vacancies skip limit db) = db"
  by (simp add: list_vacancies_def)

lemma list_candidates_state: "snd (list_candidates skip limit db) = db"
  by (simp add: list_candidates_def)

lemma get_db_state:
  "snd (get_db body db) = close (snd (body (SessionLocal db)))"
  by (cases "body (SessionLocal db)" rule: prod.exhaust, cases "fst (body (SessionLocal db))")
     (auto simp: get_db_def)

lemma respond_state: "snd (respond out r) = snd r"
  by (cases r, cases "fst r") (auto simp: respond_def)

lemma create_vacancy_state:
  "snd (create_vacancy vacancy db) =
     (case vacancies db of
        None \<Rightarrow> db
      | Some t \<Rightarrow> db\<lparr>vacancies := Some (snd (insert_vacancy vacancy t))\<rparr>)"
  by (simp add: create_vacancy_def split: option.splits prod.splits)

lemma create_candidate_state:
  "snd (create_candidate candidate db) =
     (case candidates db of
        None \<Rightarrow> db
      | Some t \<Rightarrow>
          if cc_email candidate \<in> set (map c_email (rows t)) then db
          else db\<lparr>candidates := Some (snd (insert_candidate candidate t))\<rparr>)"
proof (cases "candidates db")
  case None
  then show ?thesis by (simp add: create_candidate_def)
next
  case (Some t)
  show ?thesis
  proof (cases "cc_email candidate \<in> set (map c_email (rows t))")
    case True
    then obtain r where "find (\<lambda>r. c_email r = cc_email candidate) (rows t) = Some r"
      using find_email_None_iff [of "cc_email candidate" "rows t"] by fastforce
    with Some True show ?thesis by (simp add: create_candidate_def)
  next
    case False
    then have "find (\<lambda>r. c_email r = cc_email candidate) (rows t) = None"
      by (simp add: find_email_None_iff)
    with Some False show ?thesis
      by (simp add: create_candidate_def split: prod.splits)
  qed
qed

lemma handle_state:
  "snd (handle req db) = db
   \<or> (\<exists>t r. vacancies db = Some t \<and> v_id r = id_seq t + 1 \<and>
        snd (handle req db) = db\<lparr>vacancies := Some \<lparr>rows = rows t @ [r], id_seq = id_seq t + 1\<rparr>\<rparr>)
   \<or> (\<exists>t. vacancies db = Some t \<and>
        snd (handle req db) = db\<lparr>vacancies := Some (t\<lparr>id_seq := id_seq t + 1\<rparr>)\<rparr>)
   \<or> (\<exists>t r. candidates db = Some t \<and> c_id r = id_seq t + 1 \<and>
        c_email r \<notin> set (map c_email (rows t)) \<and>
        snd (handle req db) = db\<lparr>candidates := Some \<lparr>rows = rows t @ [r], id_seq = id_seq t + 1\<rparr>\<rparr>)
   \<or> (\<exists>t. candidates db = Some t \<and>
        snd (handle req db) = db\<lparr>candidates := Some (t\<lparr>id_seq := id_seq t + 1\<rparr>)\<rparr>)"
proof (cases req)
  case GET_health
  then show ?thesis by simp
next
  case (GET_vacancies skip limit)
  then show ?thesis
    by (simp add: respond_state get_db_state list_vacancies_state close_SessionLocal)
next
  case (GET_candidates skip limit)
  then show ?thesis
    by (simp add: respond_state get_db_state list_candidates_state close_SessionLocal)
next
  case (POST_vacancies body)
  show ?thesis
  proof (cases "parse_VacancyCreate body")
    case (Inl e)
    with POST_vacancies show ?thesis
      by (simp add: respond_state get_db_state close_SessionLocal)
  next
    case (Inr vacancy)
    show ?thesis
    proof (cases "vacancies db")
      case None
      with Inr POST_vacancies show ?thesis
        by (simp add: respond_state get_db_state create_vacancy_state SessionLocal_def close_def)
    next
      case (Some t)
      have s: "snd (handle req db) = db\<lparr>vacancies := Some (snd (insert_vacancy vacancy t))\<rparr>"
        using Some Inr POST_vacancies
        by (simp add: respond_state get_db_state create_vacancy_state SessionLocal_def close_def)
      from insert_vacancy_cases [of vacancy t] consider
          (same) "snd (insert_vacancy vacancy t) = t"
        | (seq) "snd (insert_vacancy vacancy t) = t\<lparr>id_seq := id_seq t + 1\<rparr>"
        | (new) r where "v_id r = id_seq t + 1"
            "snd (insert_vacancy vacancy t) = \<lparr>rows = rows t @ [r], id_seq = id_seq t + 1\<rparr>"
        by force
      then show ?thesis
      proof cases
        case same
        with s Some have "snd (handle req db) = db" by simp
        then show ?thesis by simp
      next
        case seq
        with s Some show ?thesis by simp
      next
        case new
        with s Some show ?thesis by auto
      qed
    qed
  qed
next
  case (POST_candidates body)
  show ?thesis
  proof (cases "parse_CandidateCreate body")
    case (Inl e)
    with POST_candidates show ?thesis
      by (simp add: respond_state get_db_state close_SessionLocal)
  next
    case (Inr candidate)
    show ?thesis
    proof (cases "candidates db")
      case None
      with Inr POST_candidates show ?thesis
        by (simp add: respond_state get_db_state create_candidate_state SessionLocal_def close_def)
    next
      case (Some t)
      show ?thesis
      proof (cases "cc_email candidate \<in> set (map c_email (rows t))")
        case True
        with Some Inr POST_candidates show ?thesis
          by (simp add: respond_state get_db_state create_candidate_state SessionLocal_def close_def)
      next
        case False
        have s: "snd (handle req db) =
                   db\<lparr>candidates := Some (snd (insert_candidate candidate t))\<rparr>"
          using False Some Inr POST_candidates
          by (simp add: respond_state get_db_state create_candidate_state SessionLocal_def close_def)
        from insert_candidate_cases [of candidate t] consider
            (same) "snd (insert_candidate candidate t) = t"
          | (seq) "snd (insert_candidate candidate t) = t\<lparr>id_seq := id_seq t + 1\<rparr>"
          | (new) r where "c_id r = id_seq t + 1" "c_email r \<notin> set (map c_email (rows t))"
              "snd (insert_candidate candidate t) = \<lparr>rows = rows t @ [r], id_seq = id_seq t + 1\<rparr>"
          by force
        then show ?thesis
        proof cases
          case same
          with s Some have "snd (handle req db) = db" by simp
          then show ?thesis by simp
        next
          case seq
          with s Some show ?thesis by simp
        next
          case new
          with s Some show ?thesis by auto
        qed
      qed
    qed
  qed
qed

section \<open>Invariants along a run of requests\<close>

lemma handle_open_sessions: "open_sessions (snd (handle req db)) = open_sessions db"
  using handle_state [of req db] by auto

lemma run_open_sessions: "open_sessions (run reqs db) = open_sessions db"
  by (induction reqs arbitrary: db) (simp_all add: handle_open_sessions)

lemma handle_unique_email: "unique_email db \<Longrightarrow> unique_email (snd (handle req db))"
  using handle_state [of req db] by (auto simp: unique_email_def)

lemma run_unique_email: "unique_email db \<Longrightarrow> unique_email (run reqs db)"
  by (induction reqs arbitrary: db) (simp_all add: handle_unique_email)

lemma handle_vacancy_rows:
  "vacancies db = Some t \<Longrightarrow>
   \<exists>t' new. vacancies (snd (handle req db)) = Some t' \<and> rows t' = rows t @ new \<and> length new \<le> 1"
  using handle_state [of req db] by auto

lemma handle_candidate_rows:
  "candidates db = Some t \<Longrightarrow>
   \<exists>t' new. candidates (snd (handle req db)) = Some t' \<and> rows t' = rows t @ new \<and> length new \<le> 1"
  using handle_state [of req db] by auto

lemma run_vacancy_rows:
  "vacancies db = Some t \<Longrightarrow>
   \<exists>t' new. vacancies (run reqs db) = Some t' \<and> rows t' = rows t @ new"
proof (induction reqs arbitrary: db t)
  case Nil
  then show ?case by simp
next
  case (Cons req reqs)
  from handle_vacancy_rows [OF Cons.prems, of req] obtain t1 new1 where
    t1: "vacancies (snd (handle req db)) = Some t1" "rows t1 = rows t @ new1" by blast
  from Cons.IH [OF t1(1)] obtain t2 new2 where
    "vacancies (run reqs (snd (handle req db))) = Some t2" "rows t2 = rows t1 @ new2" by blast
  with t1(2) show ?case by simp
qed

lemma run_candidate_rows:
  "candidates db = Some t \<Longrightarrow>
   \<exists>t' new. candidates (run reqs db) = Some t' \<and> rows t' = rows t @ new"
proof (induction reqs arbitrary: db t)
  case Nil
  then show ?case by simp
next
  case (Cons req reqs)
  from handle_candidate_rows [OF Cons.prems, of req] obtain t1 new1 where
    t1: "candidates (snd (handle req db)) = Some t1" "rows t1 = rows t @ new1" by blast
  from Cons.IH [OF t1(1)] obtain t2 new2 where
    "candidates (run reqs (snd (handle req db))) = Some t2" "rows t2 = rows t1 @ new2" by blast
  with t1(2) show ?case by simp
qed

lemma list_all_next_id:
  "list_all (\<lambda>r. 0 < ident r \<and> ident r \<le> n) rs \<Longrightarrow>
   list_all (\<lambda>r. 0 < ident r \<and> ident r \<le> n + 1) rs"
  for n :: int
  by (induction rs) auto

lemma ids_issued_append:
  "ids_issued ident (Some t) \<Longrightarrow> ident r = id_seq t + 1 \<Longrightarrow>
   ids_issued ident (Some \<lparr>rows = rows t @ [r], id_seq = id_seq t + 1\<rparr>)"
  by (simp add: ids_issued_def list_all_next_id)

lemma ids_issued_next:
  "ids_issued ident (Some t) \<Longrightarrow> ids_issued ident (Some (t\<lparr>id_seq := id_seq t + 1\<rparr>))"
  by (simp add: ids_issued_def list_all_next_id)

lemma handle_ids_issued_vacancies:
  "ids_issued v_id (vacancies db) \<Longrightarrow> ids_issued v_id (vacancies (snd (handle req db)))"
  using handle_state [of req db] by (auto simp: ids_issued_append ids_issued_next)

lemma handle_ids_issued_candidates:
  "ids_issued c_id (candidates db) \<Longrightarrow> ids_issued c_id (candidates (snd (handle req db)))"
  using handle_state [of req db] by (auto simp: ids_issued_append ids_issued_next)

lemma create_all_result:
  "create_all db =
     Inr (db\<lparr>vacancies := (case vacancies db of None \<Rightarrow> Some \<lparr>rows = [], id_seq = 0\<rparr> | Some t \<Rightarrow> Some t),
             candidates := (case candidates db of None \<Rightarrow> Some \<lparr>rows = [], id_seq = 0\<rparr> | Some t \<Rightarrow> Some t)\<rparr>)"
  by (simp add: create_all_def has_table_def create_table_def split: option.splits)


lemma started_db_is_first_start: "create_all empty_database = Inr started_db"
  by (simp add: create_all_result empty_database_def started_db_def)

lemma run_ids_issued_vacancies:
  "ids_issued v_id (vacancies db) \<Longrightarrow> ids_issued v_id (vacancies (run reqs db))"
  by (induction reqs arbitrary: db) (simp_all add: handle_ids_issued_vacancies)

lemma run_ids_issued_candidates:
  "ids_issued c_id (candidates db) \<Longrightarrow> ids_issued c_id (candidates (run reqs db))"
  by (induction reqs arbitrary: db) (simp_all add: handle_ids_issued_candidates)

lemma started_db_ids_issued:
  "ids_issued v_id (vacancies started_db)" "ids_issued c_id (candidates started_db)"
  by (simp_all add: ids_issued_def started_db_def)

lemma handle_has_tables:
  "has_table (vacancies db) \<Longrightarrow> has_table (vacancies (snd (handle req db)))"
  "has_table (candidates db) \<Longrightarrow> has_table (candidates (snd (handle req db)))"
  using handle_state [of req db] by (auto simp: has_table_def)

lemma run_has_tables:
  "has_table (vacancies db) \<and> has_table (candidates db) \<Longrightarrow>
   has_table (vacancies (run reqs db)) \<and> has_table (candidates (run reqs db))"
  by (induction reqs arbitrary: db) (simp_all add: handle_has_tables)

section \<open>The answer of each route\<close>


lemma handle_POST_vacancies:
  assumes "parse_VacancyCreate body = Inr vacancy" and "vacancies db = Some t"
  shows "handle (POST_vacancies body) db =
           (map_sum id VacancyOut (fst (insert_vacancy vacancy t)),
            db\<lparr>vacancies := Some (snd (insert_vacancy vacancy t))\<rparr>)"
proof -
  obtain out t' where i: "insert_vacancy vacancy t = (out, t')"
    by (cases "insert_vacancy vacancy t")
  with assms show ?thesis
    by (cases out)
       (simp_all add: get_db_def respond_def create_vacancy_def SessionLocal_def close_def)
qed

lemma handle_POST_vacancies_created:
  assumes "handle (POST_vacancies body) db = (Inr (VacancyOut r), db')"
    and "vacancies db = Some t"
  shows "db' = db\<lparr>vacancies := Some \<lparr>rows = rows t @ [r], id_seq = id_seq t + 1\<rparr>\<rparr>
         \<and> v_id r = id_seq t + 1"
proof (cases "parse_VacancyCreate body")
  case (Inl e)
  with assms(1) show ?thesis
    by (simp add: get_db_def respond_def)
next
  case (Inr vacancy)
  obtain out t' where i: "insert_vacancy vacancy t = (out, t')" by (cases "insert_vacancy vacancy t")
  from handle_POST_vacancies [OF Inr assms(2)] assms(1) i
  have "out = Inr r" "db' = db\<lparr>vacancies := Some t'\<rparr>"
    by (cases out; simp)+
  with i insert_vacancy_Inr [of vacancy t r t'] show ?thesis by simp
qed



lemma handle_GET_vacancies:
  assumes "vacancies db = Some t"
    and "0 \<le> default 0 skip" and "default 0 skip \<le> max_bigint"
    and "0 \<le> default 100 limit" and "default 100 limit \<le> max_bigint"
  shows "handle (GET_vacancies skip limit) db =
           (Inr (VacancyListOut
                  (take (nat (default 100 limit)) (drop (nat (default 0 skip)) (rows t)))), db)"
  using assms
  by (simp add: get_db_def respond_def list_vacancies_def offset_limit_all_def
      SessionLocal_def close_def)




lemma max_bigint_100: "100 \<le> max_bigint"
  by (simp add: max_bigint_def)



section \<open>The states the application serves from\<close>

text \<open>
  The module creates the schema when it is loaded, before a handler can run. So the
  databases a handler meets are those reached from a database on which \<open>create_all\<close>
  has run, by a run of requests. The theorems on the handlers below assume that the
  table they use exists and, where identifiers matter, that the stored identifiers are
  values the sequence has issued. Both hold in every such state; here for the states
  reached from the first start on an empty database.
\<close>

theorem serving_state_invariants:
  "create_all empty_database = Inr started_db
   \<and> has_table (vacancies (run reqs started_db))
   \<and> has_table (candidates (run reqs started_db))
   \<and> ids_issued v_id (vacancies (run reqs started_db))
   \<and> ids_issued c_id (candidates (run reqs started_db))
   \<and> unique_email (run reqs started_db)
   \<and> open_sessions (run reqs started_db) = 0"
proof -
  have t: "has_table (vacancies started_db) \<and> has_table (candidates started_db)"
    by (simp add: started_db_def has_table_def)
  have u: "unique_email started_db" by (simp add: started_db_def unique_email_def)
  have s: "open_sessions started_db = 0" by (simp add: started_db_def)
  show ?thesis
    using run_has_tables [OF t, of reqs] run_unique_email [OF u, of reqs] s
    by (simp add: started_db_is_first_start run_ids_issued_vacancies
        run_ids_issued_candidates started_db_ids_issued run_open_sessions)
qed

section \<open>Health\<close>

text \<open>
  C6. \<^verbatim>\<open>health()\<close> returns the fixed payload \<^verbatim>\<open>{"status": "ok"}\<close> in every state of the
  system: the request has no input, the answer is the same on any two databases, the
  database (the open sessions included) is left as it was, and the result is never an
  error.
\<close>

theorem health_fixed_payload:
  "handle GET_health db = (Inr (HealthOut [(''status'', ''ok'')]), db)
   \<and> fst (handle GET_health db) = fst (handle GET_health db')
   \<and> health = [(''status'', ''ok'')]"
  by (simp add: health_def)

section \<open>Creating a candidate whose email is taken\<close>

text \<open>
  C1. When the candidates table holds a row whose email equals the email of the payload,
  \<^verbatim>\<open>create_candidate\<close> raises \<^verbatim>\<open>HTTPException(400, "Candidate with this email already
  exists")\<close>, a client error, and the database after the call, and after the whole
  \<^verbatim>\<open>POST /candidates\<close> request, is the database before it: nothing is inserted and the
  stored candidates, hence their number, are unchanged.
\<close>

theorem create_candidate_existing_email:
  assumes "candidates db = Some t"
    and "existing \<in> set (rows t)"
    and "c_email existing = cc_email candidate"
    and "parse_CandidateCreate body = Inr candidate"
  shows "create_candidate candidate db =
           (Inl (HTTPException 400 ''Candidate with this email already exists''), db)
       \<and> handle (POST_candidates body) db =
           (Inl (HTTPException 400 ''Candidate with this email already exists''), db)
       \<and> client_error (HTTPException 400 ''Candidate with this email already exists'')
       \<and> candidates (snd (handle (POST_candidates body) db)) = Some t"
proof -
  have mem: "cc_email candidate \<in> set (map c_email (rows t))"
    using assms(2,3) by force
  have h: "create_candidate candidate db =
           (Inl (HTTPException 400 ''Candidate with this email already exists''), db)"
    by (rule create_candidate_duplicate [OF assms(1) mem])
  have "create_candidate candidate (SessionLocal db) =
           (Inl (HTTPException 400 ''Candidate with this email already exists''), SessionLocal db)"
  proof (rule create_candidate_duplicate [OF _ mem])
    show "candidates (SessionLocal db) = Some t" by (simp add: SessionLocal_def assms(1))
  qed
  then have e: "handle (POST_candidates body) db =
           (Inl (HTTPException 400 ''Candidate with this email already exists''), db)"
    by (simp add: assms(4) get_db_def respond_def close_SessionLocal)
  show ?thesis using h e assms(1) by (simp add: client_error_def)
qed

theorem create_candidate_existing_email_witness:
  "create_candidate
     \<lparr>cc_full_name = ''Ann B'', cc_email = ''ann@example.org'', cc_phone = None, cc_city = None\<rparr>
     one_candidate_db =
     (Inl (HTTPException 400 ''Candidate with this email already exists''), one_candidate_db)
   \<and> handle (POST_candidates \<lparr>cb_full_name = Text ''Ann B'', cb_email = Text ''ann@example.org'',
         cb_phone = Omitted, cb_city = Omitted\<rparr>) one_candidate_db =
     (Inl (HTTPException 400 ''Candidate with this email already exists''), one_candidate_db)
   \<and> length (rows (the (candidates (snd (handle (POST_candidates \<lparr>cb_full_name = Text ''Ann B'',
         cb_email = Text ''ann@example.org'', cb_phone = Omitted, cb_city = Omitted\<rparr>)
         one_candidate_db))))) = 1"
  using create_candidate_existing_email [of one_candidate_db "\<lparr>rows = [ann], id_seq = 1\<rparr>" ann
      "\<lparr>cc_full_name = ''Ann B'', cc_email = ''ann@example.org'', cc_phone = None, cc_city = None\<rparr>"
      "\<lparr>cb_full_name = Text ''Ann B'', cb_email = Text ''ann@example.org'',
         cb_phone = Omitted, cb_city = Omitted\<rparr>"]
  by (simp add: one_candidate_db_def ann_def parse_CandidateCreate_def)

section \<open>Unique emails\<close>

text \<open>
  C2. Every operation keeps the emails of the stored candidates pairwise different: if
  they are before the operation, they are after it, for each of the five handlers, for
  every request and for every run of requests. An insert that would break this is
  rejected twice over: \<^verbatim>\<open>create_candidate\<close> answers the payload with the 400 error and
  leaves the database alone, and the insert of the storage layer itself refuses the
  row and keeps the rows of the table: with an \<open>IntegrityError\<close>, unless the driver
  (a text with a NUL) or the sequence (no value left) has refused the row before.
\<close>

theorem candidate_email_unique_invariant:
  "(unique_email db \<longrightarrow>
      unique_email (snd (handle req db))
      \<and> unique_email (run reqs db)
      \<and> unique_email (snd (list_vacancies skip limit db))
      \<and> unique_email (snd (create_vacancy vacancy db))
      \<and> unique_email (snd (list_candidates skip limit db))
      \<and> unique_email (snd (create_candidate candidate db)))
   \<and> (candidates db = Some t \<and> cc_email candidate \<in> set (map c_email (rows t)) \<longrightarrow>
        create_candidate candidate db =
          (Inl (HTTPException 400 ''Candidate with this email already exists''), db)
        \<and> fst (insert_candidate candidate t) =
            Inl (if holds_NUL (cc_full_name candidate) \<or> holds_NUL (cc_email candidate)
                    \<or> opt_holds_NUL (cc_phone candidate) \<or> opt_holds_NUL (cc_city candidate)
                 then ValueError
                 else if max_serial < id_seq t + 1 then DataError
                 else IntegrityError)
        \<and> rows (snd (insert_candidate candidate t)) = rows t)"
proof -
  have "unique_email (snd (create_vacancy vacancy db))" if "unique_email db"
    using that by (simp add: create_vacancy_state unique_email_def split: option.splits)
  moreover have "unique_email (snd (create_candidate candidate db))" if "unique_email db"
  proof (cases "candidates db")
    case None
    with that show ?thesis by (simp add: create_candidate_state)
  next
    case (Some tc)
    from insert_candidate_cases [of candidate tc] that Some show ?thesis
      by (auto simp: create_candidate_state unique_email_def)
  qed
  moreover have "fst (insert_candidate candidate t) =
            Inl (if holds_NUL (cc_full_name candidate) \<or> holds_NUL (cc_email candidate)
                    \<or> opt_holds_NUL (cc_phone candidate) \<or> opt_holds_NUL (cc_city candidate)
                 then ValueError
                 else if max_serial < id_seq t + 1 then DataError
                 else IntegrityError)
        \<and> rows (snd (insert_candidate candidate t)) = rows t"
    if "cc_email candidate \<in> set (map c_email (rows t))"
    using that by (simp add: insert_candidate_def Let_def)
  ultimately show ?thesis
    by (simp add: handle_unique_email run_unique_email list_vacancies_state
        list_candidates_state create_candidate_duplicate)
qed

theorem candidate_email_unique_invariant_witness:
  "unique_email one_candidate_db
   \<and> unique_email (snd (handle (POST_candidates bob_body) one_candidate_db))
   \<and> map c_email (rows (the (candidates (snd (handle (POST_candidates bob_body) one_candidate_db)))))
       = [''ann@example.org'', ''bob@example.org'']
   \<and> unique_email (run [POST_candidates ann_again_body, POST_candidates bob_body] one_candidate_db)
   \<and> fst (create_candidate
        \<lparr>cc_full_name = ''Ann B'', cc_email = ''ann@example.org'', cc_phone = None, cc_city = None\<rparr>
        one_candidate_db) = Inl (HTTPException 400 ''Candidate with this email already exists'')
   \<and> insert_candidate
        \<lparr>cc_full_name = ''Ann B'', cc_email = ''ann@example.org'', cc_phone = None, cc_city = None\<rparr>
        \<lparr>rows = [ann], id_seq = 1\<rparr> = (Inl IntegrityError, \<lparr>rows = [ann], id_seq = 2\<rparr>)"
  using candidate_email_unique_invariant [of one_candidate_db "POST_candidates bob_body"
      "[POST_candidates ann_again_body, POST_candidates bob_body]" 0 100
      "\<lparr>vc_title = ''Developer'', vc_description = None, vc_status = None\<rparr>"
      "\<lparr>cc_full_name = ''Ann B'', cc_email = ''ann@example.org'', cc_phone = None, cc_city = None\<rparr>"
      "\<lparr>rows = [ann], id_seq = 1\<rparr>"]
  by (simp add: one_candidate_db_def ann_def bob_body_def unique_email_def
      parse_CandidateCreate_def get_db_def SessionLocal_def close_def respond_def
      create_candidate_def insert_candidate_def holds_NUL_def max_serial_def Let_def)

section \<open>Records are only ever added\<close>

text \<open>
  C7. No operation updates or deletes a record. After any request, and after any run
  of requests, each table holds the rows it held before, in their places and with
  every field as it was, followed by the rows that were added (at most one per
  request). The two list handlers, their routes and the health route return the
  database unchanged.
\<close>

theorem records_never_updated_or_deleted:
  "(vacancies db = Some tv \<longrightarrow>
      (\<exists>t' new. vacancies (snd (handle req db)) = Some t' \<and> rows t' = rows tv @ new
                \<and> length new \<le> 1)
      \<and> (\<exists>t' new. vacancies (run reqs db) = Some t' \<and> rows t' = rows tv @ new))
   \<and> (candidates db = Some tc \<longrightarrow>
      (\<exists>t' new. candidates (snd (handle req db)) = Some t' \<and> rows t' = rows tc @ new
                \<and> length new \<le> 1)
      \<and> (\<exists>t' new. candidates (run reqs db) = Some t' \<and> rows t' = rows tc @ new))
   \<and> snd (list_vacancies skip limit db) = db
   \<and> snd (list_candidates skip limit db) = db
   \<and> snd (handle (GET_vacancies qskip qlimit) db) = db
   \<and> snd (handle (GET_candidates qskip qlimit) db) = db
   \<and> snd (handle GET_health db) = db"
proof -
  have v: "vacancies db = Some tv \<longrightarrow>
      (\<exists>t' new. vacancies (snd (handle req db)) = Some t' \<and> rows t' = rows tv @ new
                \<and> length new \<le> 1)
      \<and> (\<exists>t' new. vacancies (run reqs db) = Some t' \<and> rows t' = rows tv @ new)"
    using handle_vacancy_rows [of db tv req] run_vacancy_rows [of db tv reqs] by blast
  have c: "candidates db = Some tc \<longrightarrow>
      (\<exists>t' new. candidates (snd (handle req db)) = Some t' \<and> rows t' = rows tc @ new
                \<and> length new \<le> 1)
      \<and> (\<exists>t' new. candidates (run reqs db) = Some t' \<and> rows t' = rows tc @ new)"
    using handle_candidate_rows [of db tc req] run_candidate_rows [of db tc reqs] by blast
  have r: "snd (list_vacancies skip limit db) = db
   \<and> snd (list_candidates skip limit db) = db
   \<and> snd (handle (GET_vacancies qskip qlimit) db) = db
   \<and> snd (handle (GET_candidates qskip qlimit) db) = db
   \<and> snd (handle GET_health db) = db"
    by (simp add: list_vacancies_state list_candidates_state respond_state get_db_state
        close_SessionLocal)
  show ?thesis by (rule conjI [OF v conjI [OF c r]])
qed

theorem records_never_updated_or_deleted_witness:
  "candidates one_candidate_db = Some \<lparr>rows = [ann], id_seq = 1\<rparr>
   \<and> rows (the (candidates (snd (handle (POST_candidates bob_body) one_candidate_db)))) =
       [ann, \<lparr>c_id = 2, c_full_name = ''Bob Ray'', c_email = ''bob@example.org'',
              c_phone = None, c_city = None\<rparr>]
   \<and> rows (the (vacancies (snd (handle (POST_vacancies dev_body) started_db)))) =
       [\<lparr>v_id = 1, v_title = ''Developer'', v_description = None, v_status = ''open''\<rparr>]
   \<and> snd (handle (GET_candidates None (Some 1)) one_candidate_db) = one_candidate_db"
  using records_never_updated_or_deleted [of one_candidate_db "\<lparr>rows = [], id_seq = 0\<rparr>"
      "POST_candidates bob_body" "[]" "\<lparr>rows = [ann], id_seq = 1\<rparr>" 0 100 None "Some 1"]
  by (simp add: one_candidate_db_def started_db_def ann_def bob_body_def dev_body_def
      parse_CandidateCreate_def parse_VacancyCreate_def get_db_def SessionLocal_def close_def
      respond_def create_candidate_def insert_candidate_def create_vacancy_def
      insert_vacancy_def holds_NUL_def max_serial_def list_candidates_def offset_limit_all_def
      max_bigint_def Let_def)

section \<open>The session of a request\<close>

text \<open>
  C9. The session that \<^verbatim>\<open>get_db\<close> opens for a request is closed when the request ends,
  whatever the outcome. While the handler runs one more session is open; when the
  handler raises, \<open>get_db\<close> passes the error on after closing the session, and when
  it returns, \<open>get_db\<close> passes the result on after closing the session. So every
  request, and every run of requests, ends with as many open sessions as it began
  with: none is held from one request to the next.
\<close>

theorem session_released_whatever_outcome:
  "open_sessions (SessionLocal db) = open_sessions db + 1
   \<and> (\<forall>raised db'. body (SessionLocal db) = (Inl raised, db') \<longrightarrow>
         get_db body db = (Inl raised, close db')
         \<and> open_sessions (snd (get_db body db)) = open_sessions db' - 1)
   \<and> (\<forall>result db'. body (SessionLocal db) = (Inr result, db') \<longrightarrow>
         get_db body db = (Inr result, close db')
         \<and> open_sessions (snd (get_db body db)) = open_sessions db' - 1)
   \<and> open_sessions (snd (handle req db)) = open_sessions db
   \<and> open_sessions (run reqs db) = open_sessions db"
  by (simp add: handle_open_sessions run_open_sessions get_db_result)
     (simp add: SessionLocal_def close_def)

theorem session_released_whatever_outcome_witness:
  "open_sessions one_candidate_db = 0
   \<and> fst (handle (POST_candidates ann_again_body) one_candidate_db) =
       Inl (HTTPException 400 ''Candidate with this email already exists'')
   \<and> open_sessions (snd (handle (POST_candidates ann_again_body) one_candidate_db)) = 0
   \<and> fst (handle (POST_candidates bob_body) one_candidate_db) =
       Inr (CandidateOut \<lparr>c_id = 2, c_full_name = ''Bob Ray'', c_email = ''bob@example.org'',
              c_phone = None, c_city = None\<rparr>)
   \<and> open_sessions (snd (handle (POST_candidates bob_body) one_candidate_db)) = 0
   \<and> open_sessions (run [POST_candidates ann_again_body, POST_candidates bob_body, GET_health]
        one_candidate_db) = 0"
  using session_released_whatever_outcome [of one_candidate_db
      "\<lambda>d. case parse_CandidateCreate ann_again_body of
              Inl e \<Rightarrow> (Inl e, d) | Inr candidate \<Rightarrow> create_candidate candidate d"
      "POST_candidates ann_again_body"
      "[POST_candidates ann_again_body, POST_candidates bob_body, GET_health]"]
    session_released_whatever_outcome [of one_candidate_db
      "\<lambda>d. case parse_CandidateCreate bob_body of
              Inl e \<Rightarrow> (Inl e, d) | Inr candidate \<Rightarrow> create_candidate candidate d"
      "POST_candidates bob_body" "[]"]
  by (simp add: one_candidate_db_def ann_def bob_body_def ann_again_body_def
      parse_CandidateCreate_def get_db_def SessionLocal_def close_def
      respond_def create_candidate_def insert_candidate_def holds_NUL_def max_serial_def Let_def)

section \<open>Schema creation\<close>

text \<open>
  C8. Schema creation is idempotent. On every database \<^verbatim>\<open>create_all\<close> succeeds, both
  tables exist afterwards, a table that existed keeps its rows and its sequence, and
  running \<^verbatim>\<open>create_all\<close> again on the result succeeds and changes nothing. On a
  database that has both tables it changes nothing at all.
\<close>

theorem create_all_idempotent:
  "(\<exists>db'. create_all db = Inr db' \<and> create_all db' = Inr db'
      \<and> has_table (vacancies db') \<and> has_table (candidates db')
      \<and> (\<forall>t. vacancies db = Some t \<longrightarrow> vacancies db' = Some t)
      \<and> (\<forall>t. candidates db = Some t \<longrightarrow> candidates db' = Some t)
      \<and> open_sessions db' = open_sessions db)
   \<and> (has_table (vacancies db) \<and> has_table (candidates db) \<longrightarrow> create_all db = Inr db)"
  by (auto simp: create_all_result has_table_def split: option.splits)

theorem create_all_idempotent_witness:
  "create_all empty_database = Inr started_db
   \<and> create_all started_db = Inr started_db
   \<and> create_all one_candidate_db = Inr one_candidate_db
   \<and> has_table (candidates one_candidate_db) \<and> has_table (vacancies one_candidate_db)"
  using create_all_idempotent [of one_candidate_db] create_all_idempotent [of empty_database]
  by (simp add: create_all_def has_table_def create_table_def empty_database_def
      started_db_def one_candidate_db_def)

section \<open>Listing vacancies\<close>

text \<open>
  C5 states the result of \<^verbatim>\<open>list_vacancies(skip, limit)\<close> for every non-negative \<^verbatim>\<open>skip\<close>
  and \<^verbatim>\<open>limit\<close>. The handler passes both to the store as they come, and the store takes
  them as 64-bit integers: with \<^verbatim>\<open>limit\<close> or \<^verbatim>\<open>skip\<close> equal to \<open>2 ^ 63\<close> the query is
  refused with a \<open>DataError\<close> and no record is returned, here on a database with two
  vacancies.
\<close>

theorem list_vacancies_limit_counterexample:
  "list_vacancies 0 9223372036854775808 two_vacancies_db = (Inl DataError, two_vacancies_db)
   \<and> list_vacancies 9223372036854775808 1 two_vacancies_db = (Inl DataError, two_vacancies_db)
   \<and> handle (GET_vacancies (Some 0) (Some 9223372036854775808)) two_vacancies_db =
       (Inl DataError, two_vacancies_db)"
  by (simp add: two_vacancies_db_def list_vacancies_def offset_limit_all_def max_bigint_def
      get_db_def respond_def SessionLocal_def close_def)

text \<open>
  C5, amended. On a database with a vacancies table, for \<^verbatim>\<open>skip\<close> and \<^verbatim>\<open>limit\<close> that are
  not negative and below \<open>2 ^ 63\<close>, \<^verbatim>\<open>list_vacancies(skip, limit)\<close> returns the stored
  rows from offset \<^verbatim>\<open>skip\<close> on, at most \<^verbatim>\<open>limit\<close> of them, in stored order, and leaves
  the database unchanged. The route takes \<^verbatim>\<open>skip=0\<close> and \<^verbatim>\<open>limit=100\<close> when the query
  leaves them out. With exactly two vacancies stored, and in particular after two
  requests have each created a vacancy on an empty table, \<^verbatim>\<open>list_vacancies(0, 1)\<close>
  returns exactly one record, the first.
\<close>

theorem list_vacancies_offset_limit:
  assumes "vacancies db = Some t"
    and "0 \<le> skip" and "skip \<le> max_bigint"
    and "0 \<le> limit" and "limit \<le> max_bigint"
  shows "list_vacancies skip limit db =
           (Inr (take (nat limit) (drop (nat skip) (rows t))), db)
     \<and> length (take (nat limit) (drop (nat skip) (rows t))) =
           min (nat limit) (length (rows t) - nat skip)
     \<and> (\<forall>i < length (take (nat limit) (drop (nat skip) (rows t))).
           take (nat limit) (drop (nat skip) (rows t)) ! i = rows t ! (nat skip + i))
     \<and> handle (GET_vacancies (Some skip) (Some limit)) db =
           (Inr (VacancyListOut (take (nat limit) (drop (nat skip) (rows t)))), db)
     \<and> handle (GET_vacancies None None) db = (Inr (VacancyListOut (take 100 (rows t))), db)
     \<and> (length (rows t) = 2 \<longrightarrow> list_vacancies 0 1 db = (Inr [rows t ! 0], db))
     \<and> (rows t = []
          \<and> handle (POST_vacancies b1) db = (Inr (VacancyOut r1), db1)
          \<and> handle (POST_vacancies b2) db1 = (Inr (VacancyOut r2), db2) \<longrightarrow>
          handle (GET_vacancies (Some 0) (Some 1)) db2 = (Inr (VacancyListOut [r1]), db2)
          \<and> list_vacancies 0 1 db2 = (Inr [r1], db2)
          \<and> map_option rows (vacancies db2) = Some [r1, r2])"
proof -
  have 1: "list_vacancies skip limit db =
           (Inr (take (nat limit) (drop (nat skip) (rows t))), db)"
    using assms by (simp add: list_vacancies_def offset_limit_all_def)
  have 2: "length (take (nat limit) (drop (nat skip) (rows t))) =
           min (nat limit) (length (rows t) - nat skip)"
    by (simp add: min.commute)
  have 3: "\<forall>i < length (take (nat limit) (drop (nat skip) (rows t))).
           take (nat limit) (drop (nat skip) (rows t)) ! i = rows t ! (nat skip + i)"
    by (auto simp: nth_drop)
  have 4: "handle (GET_vacancies (Some skip) (Some limit)) db =
           (Inr (VacancyListOut (take (nat limit) (drop (nat skip) (rows t)))), db)"
    using handle_GET_vacancies [OF assms(1), of "Some skip" "Some limit"] assms(2-5) by simp
  have 5: "handle (GET_vacancies None None) db = (Inr (VacancyListOut (take 100 (rows t))), db)"
    using handle_GET_vacancies [OF assms(1), of None None] max_bigint_100 by simp
  have 6: "length (rows t) = 2 \<longrightarrow> list_vacancies 0 1 db = (Inr [rows t ! 0], db)"
  proof
    assume "length (rows t) = 2"
    then obtain a b where "rows t = [a, b]"
      by (metis (no_types, opaque_lifting) One_nat_def Suc_1 length_0_conv length_Suc_conv)
    with assms(1) show "list_vacancies 0 1 db = (Inr [rows t ! 0], db)"
      by (simp add: list_vacancies_def offset_limit_all_def max_bigint_def)
  qed
  have 7: "rows t = []
          \<and> handle (POST_vacancies b1) db = (Inr (VacancyOut r1), db1)
          \<and> handle (POST_vacancies b2) db1 = (Inr (VacancyOut r2), db2) \<longrightarrow>
          handle (GET_vacancies (Some 0) (Some 1)) db2 = (Inr (VacancyListOut [r1]), db2)
          \<and> list_vacancies 0 1 db2 = (Inr [r1], db2)
          \<and> map_option rows (vacancies db2) = Some [r1, r2]"
  proof (intro impI, elim conjE)
    assume e: "rows t = []"
      and p1: "handle (POST_vacancies b1) db = (Inr (VacancyOut r1), db1)"
      and p2: "handle (POST_vacancies b2) db1 = (Inr (VacancyOut r2), db2)"
    let ?t1 = "\<lparr>rows = rows t @ [r1], id_seq = id_seq t + 1\<rparr>"
    have d1: "db1 = db\<lparr>vacancies := Some ?t1\<rparr>"
      using handle_POST_vacancies_created [OF p1 assms(1)] by simp
    then have v1: "vacancies db1 = Some ?t1" by simp
    let ?t2 = "\<lparr>rows = rows ?t1 @ [r2], id_seq = id_seq ?t1 + 1\<rparr>"
    have d2: "db2 = db1\<lparr>vacancies := Some ?t2\<rparr>"
      using handle_POST_vacancies_created [OF p2 v1] by simp
    then have v2: "vacancies db2 = Some ?t2" by simp
    have g: "handle (GET_vacancies (Some 0) (Some 1)) db2 = (Inr (VacancyListOut [r1]), db2)"
      using handle_GET_vacancies [OF v2, of "Some 0" "Some 1"] e
      by (simp add: max_bigint_def)
    have l: "list_vacancies 0 1 db2 = (Inr [r1], db2)"
      using v2 e by (simp add: list_vacancies_def offset_limit_all_def max_bigint_def)
    show "handle (GET_vacancies (Some 0) (Some 1)) db2 = (Inr (VacancyListOut [r1]), db2)
          \<and> list_vacancies 0 1 db2 = (Inr [r1], db2)
          \<and> map_option rows (vacancies db2) = Some [r1, r2]"
      using g l v2 e by simp
  qed
  show ?thesis
    by (rule conjI [OF 1 conjI [OF 2 conjI [OF 3 conjI [OF 4 conjI [OF 5 conjI [OF 6 7]]]]]])
qed

theorem list_vacancies_offset_limit_witness:
  "list_vacancies 0 1 two_vacancies_db = (Inr [dev_row], two_vacancies_db)
   \<and> list_vacancies 1 5 two_vacancies_db = (Inr [qa_row], two_vacancies_db)
   \<and> list_vacancies 0 9223372036854775807 two_vacancies_db =
       (Inr [dev_row, qa_row], two_vacancies_db)
   \<and> handle (GET_vacancies None None) two_vacancies_db =
       (Inr (VacancyListOut [dev_row, qa_row]), two_vacancies_db)
   \<and> run [POST_vacancies dev_body, POST_vacancies qa_body] started_db = two_vacancies_db
   \<and> handle (GET_vacancies (Some 0) (Some 1))
        (run [POST_vacancies dev_body, POST_vacancies qa_body] started_db) =
       (Inr (VacancyListOut [dev_row]), two_vacancies_db)"
  using list_vacancies_offset_limit [of two_vacancies_db "\<lparr>rows = [dev_row, qa_row], id_seq = 2\<rparr>"
      0 1 dev_body dev_row "snd (handle (POST_vacancies dev_body) started_db)" qa_body qa_row
      two_vacancies_db]
    list_vacancies_offset_limit [of two_vacancies_db "\<lparr>rows = [dev_row, qa_row], id_seq = 2\<rparr>"
      1 5 dev_body dev_row "snd (handle (POST_vacancies dev_body) started_db)" qa_body qa_row
      two_vacancies_db]
    list_vacancies_offset_limit [of two_vacancies_db "\<lparr>rows = [dev_row, qa_row], id_seq = 2\<rparr>"
      0 9223372036854775807 dev_body dev_row "snd (handle (POST_vacancies dev_body) started_db)"
      qa_body qa_row two_vacancies_db]
    list_vacancies_offset_limit [of started_db "\<lparr>rows = [], id_seq = 0\<rparr>"
      0 1 dev_body dev_row "snd (handle (POST_vacancies dev_body) started_db)" qa_body qa_row
      two_vacancies_db]
  by (simp add: two_vacancies_db_def started_db_def dev_row_def qa_row_def dev_body_def
      qa_body_def parse_VacancyCreate_def get_db_def SessionLocal_def close_def respond_def
      create_vacancy_def insert_vacancy_def holds_NUL_def max_serial_def max_bigint_def
      list_vacancies_def offset_limit_all_def Let_def)

section \<open>Creating a vacancy\<close>




section \<open>Creating a candidate and listing it\<close>




section \<open>A status given as null\<close>




end
